theory Spec2Isabelle
  imports Complex_Main "HOL-Library.Option_ord" "HOL-Library.Multiset"
begin

section \<open>Values\<close>

text \<open>
  A JavaScript number: a finite double (given by the real it denotes), an infinity or
  NaN. The sign of zero is not kept.
\<close>

datatype jsnum = Fin real | PInf | NInf | NaN

text \<open>
  A parsed JSON value of a request body. A number is the double that \<^verbatim>\<open>JSON.parse\<close>
  reads (an infinity when the text overflows). The keys of an object are distinct.
\<close>

datatype jval =
    JNull
  | JBool bool
  | JNum jsnum
  | JStr string
  | JArr "jval list"
  | JObj "(string \<times> jval) list"

text \<open>
  The request body after \<^verbatim>\<open>express.json()\<close>: an object, read by key. A key that is
  absent reads as \<^verbatim>\<open>undefined\<close> (\<open>None\<close>); JSON has no other way to carry
  \<^verbatim>\<open>undefined\<close>.
\<close>

type_synonym body = "string \<rightharpoonup> jval"

text \<open>A plain JavaScript object under construction: keys in insertion order.\<close>

type_synonym obj = "(string \<times> jval) list"

text \<open>A value held by a document of the collection. Dates are milliseconds.\<close>

datatype dval =
    DNull
  | DNum jsnum
  | DStr string
  | DDate int
  | DId nat

text \<open>A document: its paths in order, each with its value.\<close>

type_synonym doc = "(string \<times> dval) list"

definition get_path :: "doc \<Rightarrow> string \<Rightarrow> dval option" where
  "get_path d k = map_of d k"

text \<open>
  The result of \<^verbatim>\<open>parseInt\<close>: a whole number, NaN or an infinity (\<open>True\<close> for the
  negative one).
\<close>

datatype jsint = Whole int | NotANumber | Infinity bool

section \<open>Errors\<close>

text \<open>
  One entry of \<^verbatim>\<open>error.errors\<close> of a mongoose validation error: the cast to the
  declared type failed at a path for a value. It stands for the message text mongoose
  builds from exactly these three parts.
\<close>

datatype vmsg = CastFailed string string jval

text \<open>
  The name of an error that is not mongoose's validation error. Only that error is
  named \<^verbatim>\<open>ValidationError\<close>; the errors of the driver, of the store and of the
  runtime have other names.
\<close>

typedef other_name = "{s :: string. s \<noteq> ''ValidationError''}"
  morphisms name_text Abs_other_name
  by (rule exI [of _ "[]"]) simp

setup_lifting type_definition_other_name

lift_definition MongoNetworkError :: other_name is "''MongoNetworkError''"
  by simp

lift_definition TypeError :: other_name is "''TypeError''"
  by simp

lift_definition CastError :: other_name is "''CastError''"
  by simp

text \<open>
  An error value as a \<^verbatim>\<open>catch\<close> block receives it: mongoose's validation error with
  its message and the entries of its \<^verbatim>\<open>errors\<close> object, or any other error with its
  name and message.
\<close>

datatype thrown =
    ValidationError string "vmsg list"
  | OtherError other_name string

fun err_name :: "thrown \<Rightarrow> string" where
  "err_name (ValidationError m es) = ''ValidationError''"
| "err_name (OtherError n m) = name_text n"

fun err_message :: "thrown \<Rightarrow> string" where
  "err_message (ValidationError m es) = m"
| "err_message (OtherError n m) = m"

text \<open>\<^verbatim>\<open>error.errors\<close>: \<open>None\<close> is \<^verbatim>\<open>undefined\<close>.\<close>

fun err_errors :: "thrown \<Rightarrow> vmsg list option" where
  "err_errors (ValidationError m es) = Some es"
| "err_errors (OtherError n m) = None"

section \<open>Storage connector: process-wide connection status\<close>

text \<open>
  The two module-level variables of the service, \<^verbatim>\<open>mongoConnectionStatus\<close> (a string,
  initially "Disconnected") and \<^verbatim>\<open>mongoError\<close> (null or the message of the last error).
  \<open>None\<close> is JavaScript's \<^verbatim>\<open>null\<close>.
\<close>

record connector =
  mongoConnectionStatus :: string
  mongoError :: "string option"

definition initial_connector :: connector where
  "initial_connector = \<lparr>mongoConnectionStatus = ''Disconnected'', mongoError = None\<rparr>"

text \<open>
  \<^verbatim>\<open>connectMongoDB\<close> awaits \<^verbatim>\<open>mongoose.connect\<close>; the promise either resolves
  (\<open>None\<close>) or rejects with an error whose message is given (\<open>Some msg\<close>).
\<close>

definition connectMongoDB :: "string option \<Rightarrow> connector \<Rightarrow> connector" where
  "connectMongoDB outcome c =
     (case outcome of
        None \<Rightarrow> c\<lparr>mongoConnectionStatus := ''Connected'', mongoError := None\<rparr>
      | Some msg \<Rightarrow> c\<lparr>mongoConnectionStatus := ''Failed'', mongoError := Some msg\<rparr>)"

text \<open>The three listeners registered on \<^verbatim>\<open>mongoose.connection\<close>.\<close>

definition on_connected :: "connector \<Rightarrow> connector" where
  "on_connected c = c\<lparr>mongoConnectionStatus := ''Connected'', mongoError := None\<rparr>"

definition on_disconnected :: "connector \<Rightarrow> connector" where
  "on_disconnected c = c\<lparr>mongoConnectionStatus := ''Disconnected''\<rparr>"

definition on_error :: "string \<Rightarrow> connector \<Rightarrow> connector" where
  "on_error msg c = c\<lparr>mongoConnectionStatus := ''Error'', mongoError := Some msg\<rparr>"

section \<open>Health route\<close>

text \<open>
  What the program takes from outside its own text. From the host: the clock when a
  document is constructed (\<open>now\<close>) and when it is saved (\<open>saveNow\<close>), the environment
  variable \<^verbatim>\<open>MONGODB_URI\<close> (\<open>None\<close> when unset). From the store and its driver: the
  identifier generated for a new document, the error (if any) with which the operation
  of this request is rejected, the number of documents of a single batch, and the reply
  to a limit that is NaN or infinite (an error, or a number of documents). From the
  JavaScript runtime and mongoose: \<^verbatim>\<open>Number(s)\<close> of a string, the cast of a value on a
  Date path (\<open>None\<close> when it fails), the instant \<^verbatim>\<open>new Date(s)\<close> reads from a string
  (\<open>None\<close> for an invalid date), \<^verbatim>\<open>parseInt(s)\<close>, and the rounding of an exact
  quotient to a double or an infinity.
\<close>

record env =
  now :: int
  saveNow :: int
  MONGODB_URI :: "string option"
  newId :: nat
  storeFault :: "(other_name \<times> string) option"
  singleBatch :: nat
  oddLimit :: "thrown + nat"
  toNumber :: "string \<Rightarrow> jsnum"
  castDate :: "jval \<Rightarrow> dval option"
  parseDate :: "string \<Rightarrow> int option"
  parseInt :: "string \<Rightarrow> jsint"
  roundDouble :: "real \<Rightarrow> jsnum"

text \<open>JavaScript truthiness of a value that is a string, \<^verbatim>\<open>null\<close> or \<^verbatim>\<open>undefined\<close>.\<close>

definition truthy_str :: "string option \<Rightarrow> bool" where
  "truthy_str v = (case v of None \<Rightarrow> False | Some s \<Rightarrow> s \<noteq> [])"

record mongodb_info =
  info_status :: string
  info_database :: string
  info_timestamp :: int
  info_error :: "string option"

record root_response =
  root_code :: nat
  root_message :: string
  root_mongodb :: mongodb_info

text \<open>
  \<^verbatim>\<open>app.get("/")\<close>. The field \<open>info_error\<close> is \<open>None\<close> when the key \<^verbatim>\<open>error\<close> is
  not put on the response object. \<open>info_timestamp\<close> is the instant that
  \<^verbatim>\<open>new Date().toISOString()\<close> prints.
\<close>

definition get_root :: "env \<Rightarrow> connector \<Rightarrow> root_response" where
  "get_root e c =
     \<lparr>root_code = 200,
      root_message = ''Welcome, your app is working well'',
      root_mongodb =
        \<lparr>info_status = mongoConnectionStatus c,
         info_database = (if truthy_str (MONGODB_URI e) then ''Configured'' else ''Not Configured''),
         info_timestamp = now e,
         info_error = (if truthy_str (mongoError c) then mongoError c else None)\<rparr>\<rparr>"

section \<open>Reading model\<close>

datatype stype = SNumber | SDate

text \<open>The paths declared by \<^verbatim>\<open>energyMeterSchema\<close>, in the order of the source.\<close>

definition energyMeterSchema :: "(string \<times> stype) list" where
  "energyMeterSchema =
     [(''voltage'', SNumber), (''current'', SNumber), (''power'', SNumber),
      (''energy'', SNumber), (''frequency'', SNumber), (''powerFactor'', SNumber),
      (''timestamp'', SDate)]"

text \<open>
  mongoose's \<^verbatim>\<open>castNumber\<close>: \<^verbatim>\<open>null\<close> stays, the empty string becomes \<^verbatim>\<open>null\<close>, a
  string or boolean goes through \<^verbatim>\<open>Number\<close>, NaN is rejected, an array or a plain
  object is rejected. \<open>None\<close> is a failed cast.
\<close>

fun castNumber :: "env \<Rightarrow> jval \<Rightarrow> dval option" where
  "castNumber e JNull = Some DNull"
| "castNumber e (JNum x) = (if x = NaN then None else Some (DNum x))"
| "castNumber e (JBool b) = Some (DNum (Fin (if b then 1 else 0)))"
| "castNumber e (JStr s) =
     (if s = [] then Some DNull
      else if toNumber e s = NaN then None else Some (DNum (toNumber e s)))"
| "castNumber e (JArr xs) = None"
| "castNumber e (JObj kvs) = None"

text \<open>
  The value a Number path casts: for an object that has an \<^verbatim>\<open>_id\<close>, its \<^verbatim>\<open>_id\<close>;
  otherwise the value itself.
\<close>

fun cast_operand :: "jval \<Rightarrow> jval" where
  "cast_operand (JObj kvs) = (case map_of kvs ''_id'' of Some x \<Rightarrow> x | None \<Rightarrow> JObj kvs)"
| "cast_operand v = v"

text \<open>
  The cast of a value set on a path of the given type; on failure, the value the cast
  error reports.
\<close>

fun cast_value :: "env \<Rightarrow> stype \<Rightarrow> jval \<Rightarrow> jval + dval" where
  "cast_value e SNumber v =
     (case castNumber e (cast_operand v) of None \<Rightarrow> Inl (cast_operand v) | Some x \<Rightarrow> Inr x)"
| "cast_value e SDate v = (case castDate e v of None \<Rightarrow> Inl v | Some x \<Rightarrow> Inr x)"

fun type_name :: "stype \<Rightarrow> string" where
  "type_name SNumber = ''Number''"
| "type_name SDate = ''date''"

text \<open>
  Setting the keys of a plain object on a new document, in the object's key order. The
  schema is strict (mongoose's default, which the source does not change): a key that
  is not a declared path is dropped without an error. A failed cast leaves the path
  unset and is remembered for validation.
\<close>

fun set_paths :: "env \<Rightarrow> obj \<Rightarrow> doc \<times> vmsg list \<Rightarrow> doc \<times> vmsg list" where
  "set_paths e [] acc = acc"
| "set_paths e ((k, v) # kvs) (d, errs) =
     (case map_of energyMeterSchema k of
        None \<Rightarrow> set_paths e kvs (d, errs)
      | Some ty \<Rightarrow>
          (case cast_value e ty v of
             Inr x \<Rightarrow> set_paths e kvs (d @ [(k, x)], errs)
           | Inl w \<Rightarrow> set_paths e kvs (d, errs @ [CastFailed (type_name ty) k w])))"

text \<open>
  \<^verbatim>\<open>new EnergyMeter(energyData)\<close>: the generated \<^verbatim>\<open>_id\<close>, the paths set from the
  object, and the default \<^verbatim>\<open>Date.now\<close> of \<^verbatim>\<open>timestamp\<close> when it was not set.
\<close>

definition new_EnergyMeter :: "env \<Rightarrow> obj \<Rightarrow> doc \<times> vmsg list" where
  "new_EnergyMeter e data =
     (let (d, errs) = set_paths e data ([], [])
      in ((''_id'', DId (newId e)) # d @
            (if map_of d ''timestamp'' = None then [(''timestamp'', DDate (now e))] else []),
          errs))"

text \<open>
  \<^verbatim>\<open>save()\<close>: validation first (the failed casts reject with a ValidationError), then
  the \<^verbatim>\<open>timestamps: true\<close> option stamps \<^verbatim>\<open>createdAt\<close> and \<^verbatim>\<open>updatedAt\<close> with one
  reading of the clock, taken at the save, mongoose adds its version key, and the
  document is inserted unless the store rejects. The result is the saved document and
  the collection after the insert.
\<close>

definition save :: "env \<Rightarrow> doc list \<Rightarrow> doc \<times> vmsg list \<Rightarrow> thrown + doc \<times> doc list" where
  "save e coll m =
     (case m of (d, errs) \<Rightarrow>
        if errs \<noteq> [] then Inl (ValidationError ''EnergyMeter validation failed'' errs)
        else
          (case storeFault e of
             Some (n, msg) \<Rightarrow> Inl (OtherError n msg)
           | None \<Rightarrow>
               (let saved = d @ [(''createdAt'', DDate (saveNow e)),
                                 (''updatedAt'', DDate (saveNow e)), (''__v'', DNum (Fin 0))]
                in Inr (saved, coll @ [saved]))))"

text \<open>
  How a Number path of a document reads in arithmetic: a number, \<^verbatim>\<open>null\<close> (zero) or
  \<^verbatim>\<open>undefined\<close> (NaN). Values of other kinds do not occur on a Number path; they read
  as NaN here.
\<close>

fun to_number :: "dval option \<Rightarrow> jsnum" where
  "to_number None = NaN"
| "to_number (Some DNull) = Fin 0"
| "to_number (Some (DNum x)) = x"
| "to_number (Some v) = NaN"

fun js_abs :: "jsnum \<Rightarrow> jsnum" where
  "js_abs (Fin r) = Fin \<bar>r\<bar>"
| "js_abs PInf = PInf"
| "js_abs NInf = PInf"
| "js_abs NaN = NaN"

text \<open>
  The quotient of two finite doubles, the divisor not zero, as the runtime rounds it. A
  whole number of magnitude up to \<open>2^53\<close> is a double and is the result as it is; any
  other exact quotient is rounded, to a double or to an infinity.
\<close>

definition fdiv :: "env \<Rightarrow> real \<Rightarrow> real \<Rightarrow> jsnum" where
  "fdiv e a b =
     (let r = a / b
      in if of_int \<lfloor>r\<rfloor> = r \<and> \<bar>r\<bar> \<le> 2 ^ 53 then Fin r else roundDouble e r)"

text \<open>
  JavaScript division. A zero divisor is the positive zero: the only divisor in this
  program is a result of \<^verbatim>\<open>Math.abs\<close>.
\<close>

fun js_div :: "env \<Rightarrow> jsnum \<Rightarrow> jsnum \<Rightarrow> jsnum" where
  "js_div e NaN y = NaN"
| "js_div e x NaN = NaN"
| "js_div e (Fin a) (Fin b) =
     (if b = 0 then (if a = 0 then NaN else if 0 < a then PInf else NInf) else fdiv e a b)"
| "js_div e (Fin a) PInf = Fin 0"
| "js_div e (Fin a) NInf = Fin 0"
| "js_div e PInf (Fin b) = (if 0 \<le> b then PInf else NInf)"
| "js_div e NInf (Fin b) = (if 0 \<le> b then NInf else PInf)"
| "js_div e PInf PInf = NaN"
| "js_div e PInf NInf = NaN"
| "js_div e NInf PInf = NaN"
| "js_div e NInf NInf = NaN"

text \<open>The instance method \<^verbatim>\<open>getApparentPower\<close>.\<close>

definition getApparentPower :: "env \<Rightarrow> doc \<Rightarrow> jsnum" where
  "getApparentPower e this =
     js_div e (to_number (get_path this ''power''))
              (js_abs (to_number (get_path this ''powerFactor'')))"

section \<open>Queries on the collection\<close>

text \<open>
  A query filter as the program builds it: an exact match on \<^verbatim>\<open>deviceId\<close> and the
  bounds \<^verbatim>\<open>$gte\<close> and \<^verbatim>\<open>$lte\<close> on \<^verbatim>\<open>timestamp\<close>, each present or not.
\<close>

record filter =
  f_deviceId :: "string option"
  f_gte :: "int option"
  f_lte :: "int option"

definition timestamp_of :: "doc \<Rightarrow> int option" where
  "timestamp_of d = (case get_path d ''timestamp'' of Some (DDate t) \<Rightarrow> Some t | _ \<Rightarrow> None)"

text \<open>
  Whether a document matches. A date bound matches only a path that holds a date. The
  filter on \<^verbatim>\<open>deviceId\<close>, a path the schema does not declare, reaches the store as it
  is (mongoose's \<^verbatim>\<open>strictQuery\<close> is off by default).
\<close>

definition matches :: "filter \<Rightarrow> doc \<Rightarrow> bool" where
  "matches f d =
     ((case f_deviceId f of None \<Rightarrow> True | Some x \<Rightarrow> get_path d ''deviceId'' = Some (DStr x)) \<and>
      (case f_gte f of None \<Rightarrow> True
         | Some a \<Rightarrow> (case timestamp_of d of None \<Rightarrow> False | Some t \<Rightarrow> a \<le> t)) \<and>
      (case f_lte f of None \<Rightarrow> True
         | Some b \<Rightarrow> (case timestamp_of d of None \<Rightarrow> False | Some t \<Rightarrow> t \<le> b)))"

text \<open>
  \<^verbatim>\<open>sort({ timestamp: -1 })\<close>: descending by \<^verbatim>\<open>timestamp\<close>. A document without a date
  there sorts after every dated one (every other kind of value this model stores is
  below dates in the store's order); \<open>None\<close> is the least key. Documents with equal
  keys keep their order.
\<close>

fun insert_desc :: "doc \<Rightarrow> doc list \<Rightarrow> doc list" where
  "insert_desc x [] = [x]"
| "insert_desc x (y # ys) =
     (if timestamp_of y \<le> timestamp_of x then x # y # ys else y # insert_desc x ys)"

definition sort_desc :: "doc list \<Rightarrow> doc list" where
  "sort_desc xs = foldr insert_desc xs []"

text \<open>
  \<^verbatim>\<open>limit(n)\<close> on the sorted matches. A positive whole number keeps that many; zero is
  the store's "no limit". A negative whole number is sent as its absolute value with
  the request for a single batch, so the reply holds at most that many and at most one
  batch. For NaN or an infinity the store's reply is not known to this model: it is an
  error or some number of the sorted matches, as the environment says.
\<close>

definition apply_limit :: "env \<Rightarrow> jsint \<Rightarrow> doc list \<Rightarrow> thrown + doc list" where
  "apply_limit e parsed xs =
     (case parsed of
        Whole n \<Rightarrow>
          if n = 0 then Inr xs
          else if 0 < n then Inr (take (nat n) xs)
          else Inr (take (min (nat (- n)) (singleBatch e)) xs)
      | _ \<Rightarrow> (case oddLimit e of Inl err \<Rightarrow> Inl err | Inr k \<Rightarrow> Inr (take k xs)))"

text \<open>
  The static method \<^verbatim>\<open>getReadingsInRange\<close>, run on a collection. \<^verbatim>\<open>deviceId\<close> is
  \<open>None\<close> for \<^verbatim>\<open>null\<close> (the default).
\<close>

definition getReadingsInRange :: "int \<Rightarrow> int \<Rightarrow> string option \<Rightarrow> doc list \<Rightarrow> doc list" where
  "getReadingsInRange startDate endDate deviceId coll =
     (let query = \<lparr>f_deviceId = None, f_gte = Some startDate, f_lte = Some endDate\<rparr>;
          query = (if truthy_str deviceId then query\<lparr>f_deviceId := deviceId\<rparr> else query)
      in sort_desc (filter (matches query) coll))"

section \<open>Ingest route\<close>

record created =
  c_message :: string
  c_data :: doc
  c_insertedId :: "dval option"
  c_timestamp :: "dval option"
  c_apparentPower :: "jsnum option"

record listing =
  l_message :: string
  l_count :: nat
  l_data :: "doc list"

text \<open>The JSON bodies the routes send, and a response: \<^verbatim>\<open>res.status(n).json(body)\<close>.\<close>

datatype payload =
    Created created
  | ValidationFailed string "vmsg list"
  | ServerError string string
  | Listing listing

record response =
  r_status :: nat
  r_json :: payload

text \<open>One line \<^verbatim>\<open>if (x !== undefined) energyData.k = x\<close>.\<close>

definition entry :: "body \<Rightarrow> string \<Rightarrow> string \<Rightarrow> obj" where
  "entry b src dst = (case b src of None \<Rightarrow> [] | Some v \<Rightarrow> [(dst, v)])"

definition energyData :: "body \<Rightarrow> obj" where
  "energyData b =
     entry b ''vol'' ''voltage'' @ entry b ''current'' ''current'' @
     entry b ''power'' ''power'' @ entry b ''energy'' ''energy'' @
     entry b ''frequency'' ''frequency'' @ entry b ''pf'' ''powerFactor'' @
     entry b ''deviceId'' ''deviceId'' @ entry b ''location'' ''location''"

text \<open>JavaScript truthiness of a path of a document.\<close>

fun truthy :: "dval option \<Rightarrow> bool" where
  "truthy None = False"
| "truthy (Some DNull) = False"
| "truthy (Some (DNum x)) = (x \<noteq> Fin 0 \<and> x \<noteq> NaN)"
| "truthy (Some (DStr s)) = (s \<noteq> [])"
| "truthy (Some (DDate t)) = True"
| "truthy (Some (DId i)) = True"

text \<open>The \<^verbatim>\<open>try\<close> block of \<^verbatim>\<open>app.post("/")\<close>: what it throws, or the response and the collection.\<close>

definition post_try :: "env \<Rightarrow> doc list \<Rightarrow> body \<Rightarrow> thrown + response \<times> doc list" where
  "post_try e coll b =
     (case save e coll (new_EnergyMeter e (energyData b)) of
        Inl err \<Rightarrow> Inl err
      | Inr (savedReading, coll') \<Rightarrow>
          Inr (\<lparr>r_status = 201,
                r_json = Created
                 \<lparr>c_message = ''Energy meter data saved successfully'',
                  c_data = savedReading,
                  c_insertedId = get_path savedReading ''_id'',
                  c_timestamp = get_path savedReading ''timestamp'',
                  c_apparentPower =
                    (if truthy (get_path savedReading ''power'') \<and>
                        truthy (get_path savedReading ''powerFactor'')
                     then Some (getApparentPower e savedReading) else None)\<rparr>\<rparr>,
               coll'))"

text \<open>
  The \<^verbatim>\<open>catch\<close> block of \<^verbatim>\<open>app.post("/")\<close>. It can itself throw:
  \<^verbatim>\<open>Object.values(error.errors)\<close> is a TypeError when \<^verbatim>\<open>error.errors\<close> is undefined,
  and nothing catches it (\<open>Inl\<close>).
\<close>

definition post_catch :: "doc list \<Rightarrow> thrown \<Rightarrow> thrown + response \<times> doc list" where
  "post_catch coll error =
     (if err_name error = ''ValidationError''
      then (case err_errors error of
              None \<Rightarrow> Inl (OtherError TypeError ''Cannot convert undefined or null to object'')
            | Some es \<Rightarrow>
                Inr (\<lparr>r_status = 400, r_json = ValidationFailed ''Validation failed'' es\<rparr>, coll))
      else Inr (\<lparr>r_status = 500,
                 r_json = ServerError ''Internal server error while saving data''
                            (err_message error)\<rparr>, coll))"

text \<open>The whole handler: the response and the collection, or the error that escapes it.\<close>

definition post_root :: "env \<Rightarrow> doc list \<Rightarrow> body \<Rightarrow> thrown + response \<times> doc list" where
  "post_root e coll b =
     (case post_try e coll b of
        Inr r \<Rightarrow> Inr r
      | Inl error \<Rightarrow> post_catch coll error)"

section \<open>Listing route\<close>

text \<open>The query string of the listing route: each parameter a string, or absent.\<close>

record query_params =
  q_deviceId :: "string option"
  q_startDate :: "string option"
  q_endDate :: "string option"
  q_limit :: "string option"

text \<open>\<^verbatim>\<open>limit = 50\<close> in the destructuring, then \<^verbatim>\<open>parseInt(limit)\<close>.\<close>

definition limit_of :: "env \<Rightarrow> query_params \<Rightarrow> jsint" where
  "limit_of e q = (case q_limit q of None \<Rightarrow> Whole 50 | Some s \<Rightarrow> parseInt e s)"

text \<open>
  A date bound of the filter: absent when the parameter is falsy, else \<^verbatim>\<open>new Date(s)\<close>.
  An invalid date makes the query fail when it is cast, with the error below.
\<close>

definition invalid_date_error :: thrown where
  "invalid_date_error = OtherError CastError ''Cast to date failed''"

definition date_bound :: "env \<Rightarrow> string option \<Rightarrow> thrown + int option" where
  "date_bound e p =
     (if truthy_str p
      then (case parseDate e (the p) of None \<Rightarrow> Inl invalid_date_error | Some t \<Rightarrow> Inr (Some t))
      else Inr None)"

text \<open>
  The filter the listing route builds from the query string: \<^verbatim>\<open>deviceId\<close> when it is
  truthy, and the bounds on \<^verbatim>\<open>timestamp\<close> for the truthy ones of \<^verbatim>\<open>startDate\<close>
  and \<^verbatim>\<open>endDate\<close>.
\<close>

definition build_query :: "env \<Rightarrow> query_params \<Rightarrow> thrown + filter" where
  "build_query e q =
     (case date_bound e (q_startDate q) of
        Inl err \<Rightarrow> Inl err
      | Inr gte \<Rightarrow>
          (case date_bound e (q_endDate q) of
             Inl err \<Rightarrow> Inl err
           | Inr lte \<Rightarrow>
               Inr \<lparr>f_deviceId = (if truthy_str (q_deviceId q) then q_deviceId q else None),
                    f_gte = gte, f_lte = lte\<rparr>))"

text \<open>The \<^verbatim>\<open>try\<close> block of \<^verbatim>\<open>app.get("/readings")\<close>: find, sort, limit.\<close>

definition get_readings_try :: "env \<Rightarrow> doc list \<Rightarrow> query_params \<Rightarrow> thrown + response" where
  "get_readings_try e coll q =
     (case build_query e q of
        Inl err \<Rightarrow> Inl err
      | Inr query \<Rightarrow>
     (case storeFault e of
        Some (n, msg) \<Rightarrow> Inl (OtherError n msg)
      | None \<Rightarrow>
     (case apply_limit e (limit_of e q) (sort_desc (filter (matches query) coll)) of
        Inl err \<Rightarrow> Inl err
      | Inr readings \<Rightarrow>
          Inr \<lparr>r_status = 200,
               r_json = Listing
                     \<lparr>l_message = ''Energy meter readings retrieved successfully'',
                      l_count = length readings,
                      l_data = readings\<rparr>\<rparr>)))"

text \<open>The whole handler; its \<^verbatim>\<open>catch\<close> block reads only \<^verbatim>\<open>error.message\<close>.\<close>

definition get_readings :: "env \<Rightarrow> doc list \<Rightarrow> query_params \<Rightarrow> response" where
  "get_readings e coll q =
     (case get_readings_try e coll q of
        Inr r \<Rightarrow> r
      | Inl error \<Rightarrow>
          \<lparr>r_status = 500,
           r_json = ServerError ''Internal server error while retrieving data''
                      (err_message error)\<rparr>)"

section \<open>The running service\<close>

text \<open>
  The state of the process and of its store: the two connector variables and the
  collection. An event is the settling of the connect call at start-up, a lifecycle
  event of the connection, or a request served by a route.
\<close>

record sys =
  sys_conn :: connector
  sys_coll :: "doc list"

datatype event =
    ConnectSettled "string option"
  | EvConnected
  | EvDisconnected
  | EvError string
  | GetRoot env
  | PostRoot env body
  | GetReadings env query_params

fun step :: "sys \<Rightarrow> event \<Rightarrow> sys" where
  "step s (ConnectSettled outcome) = s\<lparr>sys_conn := connectMongoDB outcome (sys_conn s)\<rparr>"
| "step s EvConnected = s\<lparr>sys_conn := on_connected (sys_conn s)\<rparr>"
| "step s EvDisconnected = s\<lparr>sys_conn := on_disconnected (sys_conn s)\<rparr>"
| "step s (EvError msg) = s\<lparr>sys_conn := on_error msg (sys_conn s)\<rparr>"
| "step s (GetRoot e) = s"
| "step s (PostRoot e b) =
     (case post_root e (sys_coll s) b of
        Inr (r, stored) \<Rightarrow> s\<lparr>sys_coll := stored\<rparr>
      | Inl err \<Rightarrow> s)"
| "step s (GetReadings e q) = s"

definition run :: "sys \<Rightarrow> event list \<Rightarrow> sys" where
  "run s evs = foldl step s evs"

definition initial_sys :: "doc list \<Rightarrow> sys" where
  "initial_sys stored = \<lparr>sys_conn = initial_connector, sys_coll = stored\<rparr>"

definition statuses :: "string set" where
  "statuses = {''Disconnected'', ''Connected'', ''Failed'', ''Error''}"

text \<open>
  A start-up against an endpoint that cannot be reached: the connect call rejects, and
  the connection then emits its error event with the same error, since a listener for
  it is registered.
\<close>

definition unreachable_endpoint :: "string \<Rightarrow> event list" where
  "unreachable_endpoint msg = [ConnectSettled (Some msg), EvError msg]"

text \<open>The events that write neither \<^verbatim>\<open>mongoError\<close> nor, but for the disconnect, the status.\<close>

fun keeps_error :: "event \<Rightarrow> bool" where
  "keeps_error (ConnectSettled outcome) = False"
| "keeps_error EvConnected = False"
| "keeps_error (EvError msg) = False"
| "keeps_error EvDisconnected = True"
| "keeps_error (GetRoot e) = True"
| "keeps_error (PostRoot e b) = True"
| "keeps_error (GetReadings e q) = True"

section \<open>Example inputs\<close>

text \<open>
  An environment with a configured endpoint and a healthy store; the document is saved
  three milliseconds after it is constructed. The quotients of the examples are whole
  numbers, so the rounding given here is never consulted.
\<close>

definition example_env :: env where
  "example_env =
     \<lparr>now = 1000,
      saveNow = 1003,
      MONGODB_URI = Some ''mongodb://localhost:27017/energy'',
      newId = 1,
      storeFault = None,
      singleBatch = 101,
      oddLimit = Inl (OtherError MongoNetworkError ''limit rejected''),
      toNumber = (\<lambda>s. if s = ''230'' then Fin 230 else NaN),
      castDate = (\<lambda>v. None),
      parseDate = (\<lambda>s. if s = ''1970-01-01T00:00:02Z'' then Some 2000
                        else if s = ''1970-01-01T00:00:04Z'' then Some 4000 else None),
      parseInt = (\<lambda>s. if s = ''0'' then Whole 0 else if s = ''2'' then Whole 2 else NotANumber),
      roundDouble = (\<lambda>r. if 2 ^ 1024 \<le> r then PInf else if r \<le> - (2 ^ 1024) then NInf else Fin r)\<rparr>"

text \<open>The same environment with a store that rejects the operation.\<close>

definition faulty_env :: env where
  "faulty_env = example_env\<lparr>storeFault := Some (MongoNetworkError, ''connection closed'')\<rparr>"

text \<open>The body of the scenario of the specification.\<close>

definition scenario_body :: body where
  "scenario_body =
     [''vol'' \<mapsto> JNum (Fin 230), ''current'' \<mapsto> JNum (Fin 2),
      ''power'' \<mapsto> JNum (Fin 460), ''pf'' \<mapsto> JNum (Fin 1)]"

text \<open>
  A body that names its device, one with a zero power factor, one with a malformed
  voltage, and one whose voltage is an object with an \<^verbatim>\<open>_id\<close>.
\<close>

definition device_body :: body where
  "device_body = [''vol'' \<mapsto> JNum (Fin 230), ''deviceId'' \<mapsto> JStr ''meter-1'']"

definition zero_pf_body :: body where
  "zero_pf_body = [''power'' \<mapsto> JNum (Fin 460), ''pf'' \<mapsto> JNum (Fin 0)]"

definition malformed_body :: body where
  "malformed_body = [''vol'' \<mapsto> JStr ''abc'']"

text \<open>The documents and the responses these bodies are expected to produce.\<close>

definition scenario_saved :: "env \<Rightarrow> doc" where
  "scenario_saved e =
     [(''_id'', DId (newId e)), (''voltage'', DNum (Fin 230)), (''current'', DNum (Fin 2)),
      (''power'', DNum (Fin 460)), (''powerFactor'', DNum (Fin 1)),
      (''timestamp'', DDate (now e)), (''createdAt'', DDate (saveNow e)),
      (''updatedAt'', DDate (saveNow e)), (''__v'', DNum (Fin 0))]"

definition scenario_created :: "env \<Rightarrow> created" where
  "scenario_created e =
     \<lparr>c_message = ''Energy meter data saved successfully'',
      c_data = scenario_saved e,
      c_insertedId = Some (DId (newId e)),
      c_timestamp = Some (DDate (now e)),
      c_apparentPower = Some (Fin 460)\<rparr>"

definition device_saved :: doc where
  "device_saved =
     [(''_id'', DId 1), (''voltage'', DNum (Fin 230)), (''timestamp'', DDate 1000),
      (''createdAt'', DDate 1003), (''updatedAt'', DDate 1003), (''__v'', DNum (Fin 0))]"

definition zero_pf_saved :: doc where
  "zero_pf_saved =
     [(''_id'', DId 1), (''power'', DNum (Fin 460)), (''powerFactor'', DNum (Fin 0)),
      (''timestamp'', DDate 1000), (''createdAt'', DDate 1003), (''updatedAt'', DDate 1003),
      (''__v'', DNum (Fin 0))]"

definition zero_pf_created :: created where
  "zero_pf_created =
     \<lparr>c_message = ''Energy meter data saved successfully'',
      c_data = zero_pf_saved,
      c_insertedId = Some (DId 1),
      c_timestamp = Some (DDate 1000),
      c_apparentPower = None\<rparr>"

definition wrapped_body :: body where
  "wrapped_body = [''vol'' \<mapsto> JObj [(''_id'', JNum (Fin 5))]]"

definition wrapped_saved :: doc where
  "wrapped_saved =
     [(''_id'', DId 1), (''voltage'', DNum (Fin 5)), (''timestamp'', DDate 1000),
      (''createdAt'', DDate 1003), (''updatedAt'', DDate 1003), (''__v'', DNum (Fin 0))]"

definition malformed_errors :: "vmsg list" where
  "malformed_errors = [CastFailed ''Number'' ''voltage'' (JStr ''abc'')]"

definition no_params :: query_params where
  "no_params = \<lparr>q_deviceId = None, q_startDate = None, q_endDate = None, q_limit = None\<rparr>"

text \<open>A stored reading of a device at an instant, and a collection of five.\<close>

definition reading_at :: "nat \<Rightarrow> string \<Rightarrow> int \<Rightarrow> doc" where
  "reading_at i dev t = [(''_id'', DId i), (''deviceId'', DStr dev), (''timestamp'', DDate t)]"

definition stored5 :: "doc list" where
  "stored5 =
     [reading_at 1 ''m1'' 3000, reading_at 2 ''m2'' 1000, reading_at 3 ''m1'' 5000,
      reading_at 4 ''m2'' 2000, reading_at 5 ''m1'' 4000]"

definition limit_params :: "string \<Rightarrow> query_params" where
  "limit_params s = no_params\<lparr>q_limit := Some s\<rparr>"

definition device_params :: "string \<Rightarrow> query_params" where
  "device_params x = no_params\<lparr>q_deviceId := Some x\<rparr>"

definition range_params :: "string \<Rightarrow> string \<Rightarrow> query_params" where
  "range_params a b = no_params\<lparr>q_startDate := Some a, q_endDate := Some b\<rparr>"

definition listing_of :: "doc list \<Rightarrow> listing" where
  "listing_of rs =
     \<lparr>l_message = ''Energy meter readings retrieved successfully'',
      l_count = length rs, l_data = rs\<rparr>"

section \<open>Properties of the storage connector and the health route\<close>

lemma run_status:
  "mongoConnectionStatus (sys_conn s) \<in> statuses \<Longrightarrow>
   mongoConnectionStatus (sys_conn (run s evs)) \<in> statuses"
proof (induction evs arbitrary: s)
  case Nil
  then show ?case by (simp add: run_def)
next
  case (Cons ev evs)
  have "mongoConnectionStatus (sys_conn (step s ev)) \<in> statuses"
    using Cons.prems
    by (cases ev) (auto simp: statuses_def connectMongoDB_def on_connected_def
        on_disconnected_def on_error_def split: option.splits sum.splits)
  from Cons.IH [OF this] show ?case by (simp add: run_def)
qed

lemma run_append: "run s (xs @ ys) = run (run s xs) ys"
  by (simp add: run_def)

lemma step_keeps_error:
  "keeps_error ev \<Longrightarrow> mongoError (sys_conn (step s ev)) = mongoError (sys_conn s)"
  by (cases ev) (auto simp: on_disconnected_def split: sum.splits)

lemma run_keeps_error:
  "\<forall>ev\<in>set evs. keeps_error ev \<Longrightarrow>
   mongoError (sys_conn (run s evs)) = mongoError (sys_conn s)"
proof (induction evs arbitrary: s)
  case Nil
  then show ?case by (simp add: run_def)
next
  case (Cons ev evs)
  then have "mongoError (sys_conn (run (step s ev) evs)) = mongoError (sys_conn (step s ev))"
    by simp
  with Cons.prems show ?case
    by (simp add: run_def step_keeps_error)
qed

lemma stale_error_after_disconnect:
  assumes "\<forall>ev\<in>set mid. keeps_error ev" "mongoError (sys_conn s) = Some msg"
  shows "mongoConnectionStatus (sys_conn (run s (mid @ [EvDisconnected]))) = ''Disconnected''
         \<and> mongoError (sys_conn (run s (mid @ [EvDisconnected]))) = Some msg"
proof -
  have "mongoError (sys_conn (run s mid)) = Some msg"
    using run_keeps_error [OF assms(1)] assms(2) by simp
  then show ?thesis
    by (simp add: run_append) (simp add: run_def on_disconnected_def)
qed

text \<open>
  C9. After any sequence of events from the start of the process, the connection status
  is one of Disconnected, Connected, Failed and Error. A resolved connect and the
  connected event set Connected and clear the error; a rejected connect sets Failed and
  records the message; the error event sets Error and records the message; the
  disconnected event sets Disconnected. None of the three routes changes the connector.
\<close>

theorem connector_status_invariant:
  "mongoConnectionStatus (sys_conn (run (initial_sys stored) evs)) \<in> statuses
   \<and> connectMongoDB None c = c\<lparr>mongoConnectionStatus := ''Connected'', mongoError := None\<rparr>
   \<and> on_connected c = c\<lparr>mongoConnectionStatus := ''Connected'', mongoError := None\<rparr>
   \<and> connectMongoDB (Some msg) c = c\<lparr>mongoConnectionStatus := ''Failed'', mongoError := Some msg\<rparr>
   \<and> on_error msg c = c\<lparr>mongoConnectionStatus := ''Error'', mongoError := Some msg\<rparr>
   \<and> mongoConnectionStatus (on_disconnected c) = ''Disconnected''
   \<and> sys_conn (step s (GetRoot e)) = sys_conn s
   \<and> sys_conn (step s (PostRoot e b)) = sys_conn s
   \<and> sys_conn (step s (GetReadings e q)) = sys_conn s"
proof -
  have "mongoConnectionStatus (sys_conn (initial_sys stored)) \<in> statuses"
    by (simp add: initial_sys_def initial_connector_def statuses_def)
  then have "mongoConnectionStatus (sys_conn (run (initial_sys stored) evs)) \<in> statuses"
    by (rule run_status)
  moreover have "sys_conn (step s (PostRoot e b)) = sys_conn s"
    by (simp split: sum.splits)
  ultimately show ?thesis
    by (simp add: connectMongoDB_def on_connected_def on_error_def on_disconnected_def)
qed

text \<open>
  C10, as stated, at an error event whose message is the empty string, followed by a
  disconnect: the status is Disconnected and the last error is still there, not null,
  yet the response of the health route has no error field.
\<close>

theorem stale_error_counterexample:
  "mongoConnectionStatus (sys_conn (run (initial_sys []) [EvError [], EvDisconnected]))
     = ''Disconnected'' \<and>
   mongoError (sys_conn (run (initial_sys []) [EvError [], EvDisconnected])) = Some [] \<and>
   info_error (root_mongodb (get_root example_env
      (sys_conn (run (initial_sys []) [EvError [], EvDisconnected])))) = None"
  by (simp add: run_def initial_sys_def initial_connector_def on_error_def on_disconnected_def
      get_root_def truthy_str_def)

text \<open>
  C10, amended. The disconnected event sets the status to Disconnected and leaves the
  last error as it was. So in every run in which an error with a non-empty message (an
  error event or a rejected connect) is followed by a disconnect, with only
  disconnects and requests in between, the health route reports the status
  Disconnected together with the message of that earlier error.
\<close>

theorem disconnected_keeps_error:
  "mongoError (on_disconnected c) = mongoError c
   \<and> mongoConnectionStatus (on_disconnected c) = ''Disconnected''
   \<and> ((\<forall>ev\<in>set mid. keeps_error ev) \<and> msg \<noteq> [] \<longrightarrow>
        info_status (root_mongodb (get_root e
          (sys_conn (run s ([EvError msg] @ mid @ [EvDisconnected]))))) = ''Disconnected'' \<and>
        info_error (root_mongodb (get_root e
          (sys_conn (run s ([EvError msg] @ mid @ [EvDisconnected]))))) = Some msg \<and>
        info_status (root_mongodb (get_root e
          (sys_conn (run s ([ConnectSettled (Some msg)] @ mid @ [EvDisconnected])))))
            = ''Disconnected'' \<and>
        info_error (root_mongodb (get_root e
          (sys_conn (run s ([ConnectSettled (Some msg)] @ mid @ [EvDisconnected])))))
            = Some msg)"
proof (intro conjI impI)
  show "mongoError (on_disconnected c) = mongoError c"
    by (simp add: on_disconnected_def)
  show "mongoConnectionStatus (on_disconnected c) = ''Disconnected''"
    by (simp add: on_disconnected_def)
next
  assume h: "(\<forall>ev\<in>set mid. keeps_error ev) \<and> msg \<noteq> []"
  then have k: "\<forall>ev\<in>set mid. keeps_error ev" and m: "msg \<noteq> []"
    by simp_all
  have a: "mongoError (sys_conn (run s [EvError msg])) = Some msg"
    by (simp add: run_def on_error_def)
  have b: "mongoError (sys_conn (run s [ConnectSettled (Some msg)])) = Some msg"
    by (simp add: run_def connectMongoDB_def)
  from stale_error_after_disconnect [OF k a]
  have a': "mongoConnectionStatus (sys_conn (run s ([EvError msg] @ mid @ [EvDisconnected])))
              = ''Disconnected''"
      "mongoError (sys_conn (run s ([EvError msg] @ mid @ [EvDisconnected]))) = Some msg"
    by (simp_all only: run_append)
  from stale_error_after_disconnect [OF k b]
  have b': "mongoConnectionStatus
              (sys_conn (run s ([ConnectSettled (Some msg)] @ mid @ [EvDisconnected])))
              = ''Disconnected''"
      "mongoError (sys_conn (run s ([ConnectSettled (Some msg)] @ mid @ [EvDisconnected])))
              = Some msg"
    by (simp_all only: run_append)
  show "info_status (root_mongodb (get_root e
          (sys_conn (run s ([EvError msg] @ mid @ [EvDisconnected]))))) = ''Disconnected''"
    using a' by (simp add: get_root_def)
  show "info_error (root_mongodb (get_root e
          (sys_conn (run s ([EvError msg] @ mid @ [EvDisconnected]))))) = Some msg"
    using a' m by (simp add: get_root_def truthy_str_def)
  show "info_status (root_mongodb (get_root e
          (sys_conn (run s ([ConnectSettled (Some msg)] @ mid @ [EvDisconnected])))))
            = ''Disconnected''"
    using b' by (simp add: get_root_def)
  show "info_error (root_mongodb (get_root e
          (sys_conn (run s ([ConnectSettled (Some msg)] @ mid @ [EvDisconnected])))))
            = Some msg"
    using b' m by (simp add: get_root_def truthy_str_def)
qed

theorem disconnected_keeps_error_witness:
  "keeps_error (GetRoot example_env) \<and> ''timeout'' \<noteq> [] \<and>
   info_status (root_mongodb (get_root example_env
      (sys_conn (run (initial_sys [])
         ([EvError ''timeout''] @ [GetRoot example_env] @ [EvDisconnected])))))
     = ''Disconnected'' \<and>
   info_error (root_mongodb (get_root example_env
      (sys_conn (run (initial_sys [])
         ([EvError ''timeout''] @ [GetRoot example_env] @ [EvDisconnected])))))
     = Some ''timeout''"
  using disconnected_keeps_error [of "sys_conn (initial_sys [])" "[GetRoot example_env]"
          "''timeout''" example_env "initial_sys []"]
  by simp

text \<open>
  C7, as stated. At an error whose message is the empty string the last error is not
  null and the response has no error field. And after a start-up against an
  unreachable endpoint the response reports the status Error, not Failed: the error
  listener runs after the catch block of the connect call.
\<close>

theorem get_root_counterexample:
  "mongoError (sys_conn (run (initial_sys []) [EvError []])) = Some [] \<and>
   info_error (root_mongodb (get_root example_env
      (sys_conn (run (initial_sys []) [EvError []])))) = None \<and>
   info_status (root_mongodb (get_root example_env
      (sys_conn (run (initial_sys []) (unreachable_endpoint ''connect ECONNREFUSED'')))))
     = ''Error''"
  by (simp add: run_def initial_sys_def initial_connector_def on_error_def get_root_def
      truthy_str_def unreachable_endpoint_def connectMongoDB_def)

text \<open>
  C7, amended. For every connector state the health route responds 200 with the welcome
  message, the current status string, whether an endpoint is configured and the current
  time; the error field is the last error, and is present exactly when the last error is
  neither null nor the empty string. When the endpoint cannot be reached and the error
  has a non-empty message, the response is 200 with that message as its error; its
  status is Failed once the connect call has been rejected and Error once the error
  event has followed.
\<close>

theorem get_root_response:
  "root_code (get_root e c) = 200
   \<and> root_message (get_root e c) = ''Welcome, your app is working well''
   \<and> info_status (root_mongodb (get_root e c)) = mongoConnectionStatus c
   \<and> info_database (root_mongodb (get_root e c)) =
        (if MONGODB_URI e = None \<or> MONGODB_URI e = Some [] then ''Not Configured''
         else ''Configured'')
   \<and> info_timestamp (root_mongodb (get_root e c)) = now e
   \<and> info_error (root_mongodb (get_root e c)) =
        (if mongoError c = Some [] then None else mongoError c)
   \<and> (msg \<noteq> [] \<longrightarrow>
        root_code (get_root e (sys_conn (run s [ConnectSettled (Some msg)]))) = 200 \<and>
        info_status (root_mongodb (get_root e (sys_conn (run s [ConnectSettled (Some msg)]))))
          = ''Failed'' \<and>
        info_error (root_mongodb (get_root e (sys_conn (run s [ConnectSettled (Some msg)]))))
          = Some msg \<and>
        root_code (get_root e (sys_conn (run s (unreachable_endpoint msg)))) = 200 \<and>
        info_status (root_mongodb (get_root e (sys_conn (run s (unreachable_endpoint msg)))))
          = ''Error'' \<and>
        info_error (root_mongodb (get_root e (sys_conn (run s (unreachable_endpoint msg)))))
          = Some msg)"
  by (auto simp: get_root_def truthy_str_def connectMongoDB_def on_error_def run_def
      unreachable_endpoint_def split: option.splits)

theorem get_root_response_witness:
  "''connect ECONNREFUSED'' \<noteq> [] \<and>
   root_code (get_root example_env
      (sys_conn (run (initial_sys []) (unreachable_endpoint ''connect ECONNREFUSED'')))) = 200 \<and>
   info_status (root_mongodb (get_root example_env
      (sys_conn (run (initial_sys []) [ConnectSettled (Some ''connect ECONNREFUSED'')]))))
     = ''Failed'' \<and>
   info_status (root_mongodb (get_root example_env
      (sys_conn (run (initial_sys []) (unreachable_endpoint ''connect ECONNREFUSED'')))))
     = ''Error'' \<and>
   info_error (root_mongodb (get_root example_env
      (sys_conn (run (initial_sys []) (unreachable_endpoint ''connect ECONNREFUSED'')))))
     = Some ''connect ECONNREFUSED''"
  using get_root_response [of example_env "sys_conn (initial_sys [])" "''connect ECONNREFUSED''"
          "initial_sys []"]
  by simp

section \<open>Properties of the ingest route\<close>

lemma new_EnergyMeter_scenario:
  "new_EnergyMeter e (energyData scenario_body) =
     ([(''_id'', DId (newId e)), (''voltage'', DNum (Fin 230)), (''current'', DNum (Fin 2)),
       (''power'', DNum (Fin 460)), (''powerFactor'', DNum (Fin 1)),
       (''timestamp'', DDate (now e))], [])"
  by (simp add: new_EnergyMeter_def energyData_def entry_def scenario_body_def
      energyMeterSchema_def)

lemma fdiv_460: "fdiv e 460 1 = Fin 460"
  by (simp add: fdiv_def)

lemma post_root_scenario:
  "storeFault e = None \<Longrightarrow>
   post_root e coll scenario_body =
     Inr (\<lparr>r_status = 201, r_json = Created (scenario_created e)\<rparr>, coll @ [scenario_saved e])"
  by (simp add: Let_def post_root_def post_try_def save_def new_EnergyMeter_scenario
      get_path_def getApparentPower_def fdiv_460 scenario_created_def scenario_saved_def)

lemma post_root_zero_pf:
  "post_root example_env [] zero_pf_body =
     Inr (\<lparr>r_status = 201, r_json = Created zero_pf_created\<rparr>, [zero_pf_saved])"
  by (simp add: Let_def post_root_def post_try_def save_def new_EnergyMeter_def
      energyData_def entry_def zero_pf_body_def energyMeterSchema_def get_path_def
      example_env_def zero_pf_created_def zero_pf_saved_def)

lemma name_text_not_ValidationError: "name_text n \<noteq> ''ValidationError''"
  using name_text [of n] by simp

lemma post_catch_ValidationError:
  "post_catch coll (ValidationError m es) =
     Inr (\<lparr>r_status = 400, r_json = ValidationFailed ''Validation failed'' es\<rparr>, coll)"
  by (simp add: post_catch_def)

lemma post_catch_OtherError:
  "post_catch coll (OtherError n m) =
     Inr (\<lparr>r_status = 500,
           r_json = ServerError ''Internal server error while saving data'' m\<rparr>, coll)"
  by (simp add: post_catch_def name_text_not_ValidationError)

lemma post_root_Created:
  assumes "post_root e coll b = Inr (r, coll')" "r_json r = Created c"
  shows "c_apparentPower c =
           (if truthy (get_path (c_data c) ''power'') \<and>
               truthy (get_path (c_data c) ''powerFactor'')
            then Some (getApparentPower e (c_data c)) else None)"
proof (cases "post_try e coll b")
  case (Inl err)
  with assms show ?thesis
    by (cases err) (auto simp: post_root_def post_catch_ValidationError post_catch_OtherError)
next
  case (Inr x)
  with assms show ?thesis
    by (auto simp: post_root_def post_try_def split: sum.splits prod.splits)
qed

text \<open>
  C1, at the body \<open>{"vol": 230, "deviceId": "meter-1"}\<close>: the request succeeds, and the
  stored record, which is also the \<open>data\<close> of the response, has no \<open>deviceId\<close>.
\<close>

theorem post_root_drops_deviceId:
  "device_body ''deviceId'' = Some (JStr ''meter-1'') \<and>
   post_root example_env [] device_body =
     Inr (\<lparr>r_status = 201,
           r_json = Created \<lparr>c_message = ''Energy meter data saved successfully'',
                             c_data = device_saved,
                             c_insertedId = Some (DId 1),
                             c_timestamp = Some (DDate 1000),
                             c_apparentPower = None\<rparr>\<rparr>,
          [device_saved]) \<and>
   get_path device_saved ''deviceId'' = None"
  by (simp add: Let_def post_root_def post_try_def save_def new_EnergyMeter_def
      energyData_def entry_def device_body_def energyMeterSchema_def get_path_def
      example_env_def device_saved_def)

text \<open>
  C2, as stated, at the body \<open>{"power": 460, "pf": 0}\<close>: the stored record has both
  \<open>power\<close> and \<open>powerFactor\<close>, and the response has no \<open>apparentPower\<close>.
\<close>

theorem apparentPower_absent_counterexample:
  "post_root example_env [] zero_pf_body =
     Inr (\<lparr>r_status = 201, r_json = Created zero_pf_created\<rparr>, [zero_pf_saved]) \<and>
   get_path (c_data zero_pf_created) ''power'' = Some (DNum (Fin 460)) \<and>
   get_path (c_data zero_pf_created) ''powerFactor'' = Some (DNum (Fin 0)) \<and>
   c_apparentPower zero_pf_created = None"
  by (simp add: post_root_zero_pf) (simp add: zero_pf_created_def zero_pf_saved_def get_path_def)

text \<open>
  C2, amended. In the response of a successful request, \<open>apparentPower\<close> is present
  when \<open>power\<close> and \<open>powerFactor\<close> of the stored record are both numbers other than
  zero; it is absent when either of them is missing or null, and when \<open>powerFactor\<close> is
  zero.
\<close>

theorem apparentPower_presence:
  assumes "post_root e coll b = Inr (r, coll')" "r_json r = Created c"
  shows "(get_path (c_data c) ''power'' = Some (DNum p) \<and>
          get_path (c_data c) ''powerFactor'' = Some (DNum q) \<and>
          p \<noteq> Fin 0 \<and> p \<noteq> NaN \<and> q \<noteq> Fin 0 \<and> q \<noteq> NaN
            \<longrightarrow> c_apparentPower c \<noteq> None)
       \<and> (get_path (c_data c) ''power'' \<in> {None, Some DNull} \<or>
          get_path (c_data c) ''powerFactor'' \<in> {None, Some DNull, Some (DNum (Fin 0))}
            \<longrightarrow> c_apparentPower c = None)"
  unfolding post_root_Created [OF assms]
  by auto

theorem apparentPower_presence_witness:
  "post_root example_env [] scenario_body
     = Inr (\<lparr>r_status = 201, r_json = Created (scenario_created example_env)\<rparr>,
            [] @ [scenario_saved example_env]) \<and>
   get_path (c_data (scenario_created example_env)) ''power'' = Some (DNum (Fin 460)) \<and>
   get_path (c_data (scenario_created example_env)) ''powerFactor'' = Some (DNum (Fin 1)) \<and>
   c_apparentPower (scenario_created example_env) \<noteq> None \<and>
   post_root example_env [] zero_pf_body
     = Inr (\<lparr>r_status = 201, r_json = Created zero_pf_created\<rparr>, [zero_pf_saved]) \<and>
   get_path (c_data zero_pf_created) ''powerFactor''
     \<in> {None, Some DNull, Some (DNum (Fin 0))} \<and>
   c_apparentPower zero_pf_created = None"
proof -
  have ok: "storeFault example_env = None"
    by (simp add: example_env_def)
  have a: "post_root example_env [] scenario_body
             = Inr (\<lparr>r_status = 201, r_json = Created (scenario_created example_env)\<rparr>,
                    [] @ [scenario_saved example_env])"
    by (rule post_root_scenario [OF ok])
  have a1: "get_path (c_data (scenario_created example_env)) ''power'' = Some (DNum (Fin 460))"
    and a2: "get_path (c_data (scenario_created example_env)) ''powerFactor''
               = Some (DNum (Fin 1))"
    by (simp_all add: scenario_created_def scenario_saved_def get_path_def)
  have b1: "get_path (c_data zero_pf_created) ''powerFactor''
              \<in> {None, Some DNull, Some (DNum (Fin 0))}"
    by (simp add: zero_pf_created_def zero_pf_saved_def get_path_def)
  have j: "r_json \<lparr>r_status = 201, r_json = Created (scenario_created example_env)\<rparr>
             = Created (scenario_created example_env)"
          "r_json \<lparr>r_status = 201, r_json = Created zero_pf_created\<rparr> = Created zero_pf_created"
    by simp_all
  show ?thesis
    using apparentPower_presence [OF a j(1), of "Fin 460" "Fin 1"]
      apparentPower_presence [OF post_root_zero_pf j(2), of "Fin 460" "Fin 0"]
      a a1 a2 b1 post_root_zero_pf
    by auto
qed

text \<open>
  C3. On a reading whose \<open>power\<close> and \<open>powerFactor\<close> are numbers, \<open>getApparentPower\<close>
  returns the quotient of \<open>power\<close> by the absolute value of \<open>powerFactor\<close> in the
  arithmetic of the runtime: for finite numbers and a \<open>powerFactor\<close> that is not zero,
  the exact quotient when that is a whole number of magnitude up to \<open>2^53\<close>, and the
  exact quotient as the runtime rounds it otherwise. When \<open>powerFactor\<close> is zero the
  result is no valid number: an infinity or NaN. For the body
  \<open>{"vol":230,"current":2,"power":460,"pf":1}\<close> and a store that accepts the insert, the
  route responds 201 with voltage 230, current 2, power 460 and powerFactor 1 in
  \<open>data\<close>, and \<open>apparentPower\<close> 460.
\<close>

theorem getApparentPower_value:
  "(get_path d ''power'' = Some (DNum p) \<and> get_path d ''powerFactor'' = Some (DNum q) \<longrightarrow>
      getApparentPower e d = js_div e p (js_abs q))
   \<and> (get_path d ''power'' = Some (DNum (Fin a)) \<and>
       get_path d ''powerFactor'' = Some (DNum (Fin b)) \<and> b \<noteq> 0 \<longrightarrow>
         getApparentPower e d =
           (if of_int \<lfloor>a / \<bar>b\<bar>\<rfloor> = a / \<bar>b\<bar> \<and> \<bar>a / \<bar>b\<bar>\<bar> \<le> 2 ^ 53
            then Fin (a / \<bar>b\<bar>) else roundDouble e (a / \<bar>b\<bar>)))
   \<and> (get_path d ''power'' = Some (DNum p) \<and>
       get_path d ''powerFactor'' = Some (DNum (Fin 0)) \<longrightarrow>
         getApparentPower e d \<in> {NaN, PInf, NInf})
   \<and> (storeFault e = None \<longrightarrow>
        post_root e coll scenario_body =
          Inr (\<lparr>r_status = 201, r_json = Created (scenario_created e)\<rparr>,
               coll @ [scenario_saved e]) \<and>
        get_path (c_data (scenario_created e)) ''voltage'' = Some (DNum (Fin 230)) \<and>
        get_path (c_data (scenario_created e)) ''current'' = Some (DNum (Fin 2)) \<and>
        get_path (c_data (scenario_created e)) ''power'' = Some (DNum (Fin 460)) \<and>
        get_path (c_data (scenario_created e)) ''powerFactor'' = Some (DNum (Fin 1)) \<and>
        c_apparentPower (scenario_created e) = Some (Fin 460))"
proof (intro conjI impI)
  assume "get_path d ''power'' = Some (DNum p) \<and> get_path d ''powerFactor'' = Some (DNum q)"
  then show "getApparentPower e d = js_div e p (js_abs q)"
    by (simp add: getApparentPower_def)
next
  assume "get_path d ''power'' = Some (DNum (Fin a)) \<and>
       get_path d ''powerFactor'' = Some (DNum (Fin b)) \<and> b \<noteq> 0"
  then show "getApparentPower e d =
           (if of_int \<lfloor>a / \<bar>b\<bar>\<rfloor> = a / \<bar>b\<bar> \<and> \<bar>a / \<bar>b\<bar>\<bar> \<le> 2 ^ 53
            then Fin (a / \<bar>b\<bar>) else roundDouble e (a / \<bar>b\<bar>))"
    by (simp add: getApparentPower_def fdiv_def)
next
  assume "get_path d ''power'' = Some (DNum p) \<and>
       get_path d ''powerFactor'' = Some (DNum (Fin 0))"
  then show "getApparentPower e d \<in> {NaN, PInf, NInf}"
    by (cases p) (simp_all add: getApparentPower_def)
next
  assume "storeFault e = None"
  then show "post_root e coll scenario_body =
          Inr (\<lparr>r_status = 201, r_json = Created (scenario_created e)\<rparr>,
               coll @ [scenario_saved e])"
    by (rule post_root_scenario)
qed (simp_all add: scenario_created_def scenario_saved_def get_path_def)

theorem getApparentPower_value_witness:
  "get_path zero_pf_saved ''power'' = Some (DNum (Fin 460)) \<and>
   get_path zero_pf_saved ''powerFactor'' = Some (DNum (Fin 0)) \<and>
   getApparentPower example_env zero_pf_saved \<in> {NaN, PInf, NInf} \<and>
   get_path (scenario_saved example_env) ''power'' = Some (DNum (Fin 460)) \<and>
   get_path (scenario_saved example_env) ''powerFactor'' = Some (DNum (Fin 1)) \<and>
   (1::real) \<noteq> 0 \<and>
   getApparentPower example_env (scenario_saved example_env) = Fin 460 \<and>
   storeFault example_env = None \<and>
   post_root example_env [] scenario_body
     = Inr (\<lparr>r_status = 201, r_json = Created (scenario_created example_env)\<rparr>,
            [scenario_saved example_env]) \<and>
   c_apparentPower (scenario_created example_env) = Some (Fin 460)"
proof -
  have z: "get_path zero_pf_saved ''power'' = Some (DNum (Fin 460))"
          "get_path zero_pf_saved ''powerFactor'' = Some (DNum (Fin 0))"
    by (simp_all add: zero_pf_saved_def get_path_def)
  have s: "get_path (scenario_saved example_env) ''power'' = Some (DNum (Fin 460))"
          "get_path (scenario_saved example_env) ''powerFactor'' = Some (DNum (Fin 1))"
    by (simp_all add: scenario_saved_def get_path_def)
  have ok: "storeFault example_env = None"
    by (simp add: example_env_def)
  show ?thesis
    using getApparentPower_value [of zero_pf_saved "Fin 460" "Fin 0" example_env 460 0 "[]"]
      getApparentPower_value [of "scenario_saved example_env" "Fin 460" "Fin 1" example_env
         460 1 "[]"] z s ok
    by (simp add: fdiv_460)
qed

lemma new_EnergyMeter_malformed:
  "new_EnergyMeter example_env (energyData malformed_body) =
     ([(''_id'', DId 1), (''timestamp'', DDate 1000)], malformed_errors)"
  by (simp add: new_EnergyMeter_def energyData_def entry_def malformed_body_def
      energyMeterSchema_def example_env_def malformed_errors_def)

lemma post_root_wrapped_id:
  "post_root example_env [] wrapped_body =
     Inr (\<lparr>r_status = 201,
           r_json = Created \<lparr>c_message = ''Energy meter data saved successfully'',
                             c_data = wrapped_saved,
                             c_insertedId = Some (DId 1),
                             c_timestamp = Some (DDate 1000),
                             c_apparentPower = None\<rparr>\<rparr>,
          [wrapped_saved])"
  by (simp add: Let_def post_root_def post_try_def save_def new_EnergyMeter_def
      energyData_def entry_def wrapped_body_def energyMeterSchema_def get_path_def
      example_env_def wrapped_saved_def)

lemma get_readings_try_faulty:
  "get_readings_try faulty_env [] no_params = Inl (OtherError MongoNetworkError ''connection closed'')"
  by (simp add: get_readings_try_def build_query_def date_bound_def truthy_str_def
      no_params_def faulty_env_def)

lemma post_try_invalid:
  assumes "snd (new_EnergyMeter e (energyData b)) \<noteq> []"
  shows "post_try e coll b =
           Inl (ValidationError ''EnergyMeter validation failed''
                  (snd (new_EnergyMeter e (energyData b))))"
  using assms
  by (cases "new_EnergyMeter e (energyData b)") (simp add: post_try_def save_def)

lemma post_try_fault:
  assumes "snd (new_EnergyMeter e (energyData b)) = []" "storeFault e = Some (n, m)"
  shows "post_try e coll b = Inl (OtherError n m)"
  using assms
  by (cases "new_EnergyMeter e (energyData b)") (simp add: post_try_def save_def)

lemma post_try_ok:
  assumes "snd (new_EnergyMeter e (energyData b)) = []" "storeFault e = None"
  shows "\<exists>r stored. post_try e coll b = Inr (r, stored) \<and> r_status r = 201"
  using assms
  by (cases "new_EnergyMeter e (energyData b)") (simp add: post_try_def save_def Let_def)

text \<open>
  C8. When persistence fails in the ingest route, the handler responds 400 with the
  message \<open>Validation failed\<close> and the list of per-field messages exactly when the
  failure is a validation error, which is what a failed cast to the schema's type
  gives; for any other failure, such as a rejection by the store, it responds 500 with
  the generic message and the text of the error. The listing route answers every
  failure with 500, its generic message and the text of the error. No error escapes
  either handler: each always ends in a response.
\<close>

theorem post_root_failure:
  "(post_try e coll b = Inl (ValidationError m es) \<longrightarrow>
      post_root e coll b =
        Inr (\<lparr>r_status = 400, r_json = ValidationFailed ''Validation failed'' es\<rparr>, coll))
   \<and> (post_try e coll b = Inl (OtherError n m) \<longrightarrow>
      post_root e coll b =
        Inr (\<lparr>r_status = 500,
              r_json = ServerError ''Internal server error while saving data'' m\<rparr>, coll))
   \<and> (snd (new_EnergyMeter e (energyData b)) \<noteq> [] \<longrightarrow>
        post_root e coll b =
          Inr (\<lparr>r_status = 400,
                r_json = ValidationFailed ''Validation failed''
                           (snd (new_EnergyMeter e (energyData b)))\<rparr>, coll))
   \<and> (snd (new_EnergyMeter e (energyData b)) = [] \<and> storeFault e = Some (n, m) \<longrightarrow>
        post_root e coll b =
          Inr (\<lparr>r_status = 500,
                r_json = ServerError ''Internal server error while saving data'' m\<rparr>, coll))
   \<and> (\<exists>r stored. post_root e coll b = Inr (r, stored) \<and> r_status r \<in> {201, 400, 500})
   \<and> (get_readings_try e coll q = Inl err \<longrightarrow>
        get_readings e coll q =
          \<lparr>r_status = 500,
           r_json = ServerError ''Internal server error while retrieving data''
                      (err_message err)\<rparr>)
   \<and> r_status (get_readings e coll q) \<in> {200, 500}"
proof -
  have 1: "post_try e coll b = Inl (ValidationError m es) \<longrightarrow>
      post_root e coll b =
        Inr (\<lparr>r_status = 400, r_json = ValidationFailed ''Validation failed'' es\<rparr>, coll)"
    by (simp add: post_root_def post_catch_ValidationError)
  have 2: "post_try e coll b = Inl (OtherError n m) \<longrightarrow>
      post_root e coll b =
        Inr (\<lparr>r_status = 500,
              r_json = ServerError ''Internal server error while saving data'' m\<rparr>, coll)"
    by (simp add: post_root_def post_catch_OtherError)
  have 3: "snd (new_EnergyMeter e (energyData b)) \<noteq> [] \<longrightarrow>
        post_root e coll b =
          Inr (\<lparr>r_status = 400,
                r_json = ValidationFailed ''Validation failed''
                           (snd (new_EnergyMeter e (energyData b)))\<rparr>, coll)"
    by (simp add: post_root_def post_try_invalid post_catch_ValidationError)
  have 4: "snd (new_EnergyMeter e (energyData b)) = [] \<and> storeFault e = Some (n, m) \<longrightarrow>
        post_root e coll b =
          Inr (\<lparr>r_status = 500,
                r_json = ServerError ''Internal server error while saving data'' m\<rparr>, coll)"
    by (simp add: post_root_def post_try_fault post_catch_OtherError)
  have 5: "\<exists>r stored. post_root e coll b = Inr (r, stored) \<and> r_status r \<in> {201, 400, 500}"
  proof (cases "snd (new_EnergyMeter e (energyData b)) = []")
    case False
    with 3 show ?thesis by simp
  next
    case True
    show ?thesis
    proof (cases "storeFault e")
      case None
      from post_try_ok [OF True None, of coll] show ?thesis
        by (auto simp: post_root_def)
    next
      case (Some f)
      obtain n' m' where "f = (n', m')" by (cases f)
      with True Some show ?thesis
        by (simp add: post_root_def post_try_fault post_catch_OtherError)
    qed
  qed
  have 6: "get_readings_try e coll q = Inl err \<longrightarrow>
        get_readings e coll q =
          \<lparr>r_status = 500,
           r_json = ServerError ''Internal server error while retrieving data''
                      (err_message err)\<rparr>"
    by (simp add: get_readings_def)
  have 7: "r_status (get_readings e coll q) \<in> {200, 500}"
    by (auto simp: get_readings_def get_readings_try_def split: sum.splits option.splits)
  from 1 2 3 4 5 6 7 show ?thesis by blast
qed

theorem post_root_failure_witness:
  "post_try example_env [] malformed_body
     = Inl (ValidationError ''EnergyMeter validation failed'' malformed_errors) \<and>
   snd (new_EnergyMeter example_env (energyData malformed_body)) \<noteq> [] \<and>
   post_root example_env [] malformed_body
     = Inr (\<lparr>r_status = 400, r_json = ValidationFailed ''Validation failed'' malformed_errors\<rparr>,
            []) \<and>
   post_try faulty_env [] scenario_body
     = Inl (OtherError MongoNetworkError ''connection closed'') \<and>
   snd (new_EnergyMeter faulty_env (energyData scenario_body)) = [] \<and>
   storeFault faulty_env = Some (MongoNetworkError, ''connection closed'') \<and>
   post_root faulty_env [] scenario_body
     = Inr (\<lparr>r_status = 500,
             r_json = ServerError ''Internal server error while saving data''
                        ''connection closed''\<rparr>, []) \<and>
   get_readings_try faulty_env [] no_params
     = Inl (OtherError MongoNetworkError ''connection closed'') \<and>
   get_readings faulty_env [] no_params
     = \<lparr>r_status = 500,
        r_json = ServerError ''Internal server error while retrieving data''
                   ''connection closed''\<rparr>"
proof -
  have m: "snd (new_EnergyMeter example_env (energyData malformed_body)) = malformed_errors"
    by (simp add: new_EnergyMeter_malformed)
  have m': "malformed_errors \<noteq> []"
    by (simp add: malformed_errors_def)
  have s: "snd (new_EnergyMeter faulty_env (energyData scenario_body)) = []"
    by (simp add: new_EnergyMeter_scenario)
  have f: "storeFault faulty_env = Some (MongoNetworkError, ''connection closed'')"
    by (simp add: faulty_env_def)
  have pm: "post_try example_env [] malformed_body
              = Inl (ValidationError ''EnergyMeter validation failed'' malformed_errors)"
    using post_try_invalid [of example_env malformed_body "[]"] m m' by simp
  have pf: "post_try faulty_env [] scenario_body
              = Inl (OtherError MongoNetworkError ''connection closed'')"
    by (rule post_try_fault [OF s f])
  show ?thesis
    using post_root_failure [of example_env "[]" malformed_body
              "''EnergyMeter validation failed''" malformed_errors MongoNetworkError
              no_params "OtherError MongoNetworkError ''connection closed''"]
      post_root_failure [of faulty_env "[]" scenario_body
              "''connection closed''" malformed_errors MongoNetworkError
              no_params "OtherError MongoNetworkError ''connection closed''"]
      get_readings_try_faulty m m' s f pm pf
    by simp
qed

section \<open>Properties of the queries and the listing route\<close>

lemma mset_insert_desc: "mset (insert_desc x ys) = add_mset x (mset ys)"
  by (induction ys) auto

lemma set_insert_desc: "set (insert_desc x ys) = insert x (set ys)"
  by (induction ys) auto

lemma sorted_insert_desc:
  "sorted_wrt (\<lambda>x y. timestamp_of y \<le> timestamp_of x) ys \<Longrightarrow>
   sorted_wrt (\<lambda>x y. timestamp_of y \<le> timestamp_of x) (insert_desc x ys)"
proof (induction ys)
  case Nil
  then show ?case by simp
next
  case (Cons y ys)
  show ?case
  proof (cases "timestamp_of y \<le> timestamp_of x")
    case True
    with Cons.prems show ?thesis by (auto intro: order_trans)
  next
    case False
    then have "timestamp_of x \<le> timestamp_of y" by simp
    with False Cons show ?thesis by (auto simp: set_insert_desc)
  qed
qed

lemma mset_sort_desc: "mset (sort_desc xs) = mset xs"
  by (induction xs) (simp_all add: sort_desc_def mset_insert_desc)

lemma sorted_sort_desc:
  "sorted_wrt (\<lambda>x y. timestamp_of y \<le> timestamp_of x) (sort_desc xs)"
  by (induction xs) (simp_all add: sort_desc_def sorted_insert_desc)

lemma sorted_wrt_take_drop:
  assumes "sorted_wrt P xs" "x \<in> set (take k xs)" "y \<in> set (drop k xs)"
  shows "P x y"
proof -
  from assms(1) have "sorted_wrt P (take k xs @ drop k xs)" by simp
  with assms(2,3) show ?thesis unfolding sorted_wrt_append by blast
qed

lemma apply_limit_prefix:
  assumes "apply_limit e p xs = Inr rs"
  shows "\<exists>k. rs = take k xs \<and> (p = Whole 0 \<longrightarrow> length xs \<le> k) \<and>
             (\<forall>n. p = Whole n \<and> 0 < n \<longrightarrow> k = nat n)"
proof (cases p)
  case (Whole n)
  consider "n = 0" | "0 < n" | "n < 0" by linarith
  then show ?thesis
  proof cases
    case 1
    with Whole assms have "rs = take (length xs) xs" by (simp add: apply_limit_def)
    with Whole 1 show ?thesis by blast
  next
    case 2
    with Whole assms have "rs = take (nat n) xs" by (simp add: apply_limit_def)
    with Whole 2 show ?thesis by auto
  next
    case 3
    with Whole assms have "rs = take (min (nat (- n)) (singleBatch e)) xs"
      by (simp add: apply_limit_def)
    with Whole 3 show ?thesis by auto
  qed
next
  case NotANumber
  with assms show ?thesis
    by (auto simp: apply_limit_def split: sum.splits)
next
  case (Infinity neg)
  with assms show ?thesis
    by (auto simp: apply_limit_def split: sum.splits)
qed

lemma get_readings_Listing:
  assumes "r_json (get_readings e coll q) = Listing l"
  shows "\<exists>query. build_query e q = Inr query \<and>
           apply_limit e (limit_of e q) (sort_desc (filter (matches query) coll))
             = Inr (l_data l) \<and>
           l_count l = length (l_data l) \<and> r_status (get_readings e coll q) = 200"
  using assms
  by (auto simp: get_readings_def get_readings_try_def split: sum.splits option.splits)

lemma build_query_Inr:
  assumes "build_query e q = Inr query"
  shows "f_deviceId query = (if truthy_str (q_deviceId q) then q_deviceId q else None)
         \<and> date_bound e (q_startDate q) = Inr (f_gte query)
         \<and> date_bound e (q_endDate q) = Inr (f_lte query)"
  using assms by (auto simp: build_query_def split: sum.splits)

lemma in_listing:
  assumes "r_json (get_readings e coll q) = Listing l" "d \<in> set (l_data l)"
  shows "\<exists>query. build_query e q = Inr query \<and> d \<in> set coll \<and> matches query d"
proof -
  from get_readings_Listing [OF assms(1)] obtain query where
    q: "build_query e q = Inr query"
    and l: "apply_limit e (limit_of e q) (sort_desc (filter (matches query) coll)) = Inr (l_data l)"
    by blast
  from apply_limit_prefix [OF l] obtain k where
    "l_data l = take k (sort_desc (filter (matches query) coll))" by blast
  with assms(2) have "d \<in> set (sort_desc (filter (matches query) coll))"
    by (auto dest: in_set_takeD)
  then have "d \<in># mset (sort_desc (filter (matches query) coll))" by simp
  then have "d \<in> set (filter (matches query) coll)"
    unfolding mset_sort_desc by simp
  with q show ?thesis by auto
qed

lemma timestamp_of_reading_at: "timestamp_of (reading_at i dev t) = Some t"
  by (simp add: timestamp_of_def reading_at_def get_path_def)

lemma deviceId_reading_at: "get_path (reading_at i dev t) ''deviceId'' = Some (DStr dev)"
  by (simp add: reading_at_def get_path_def)

lemma sort_desc_stored5:
  "sort_desc stored5 =
     [reading_at 3 ''m1'' 5000, reading_at 5 ''m1'' 4000, reading_at 1 ''m1'' 3000,
      reading_at 4 ''m2'' 2000, reading_at 2 ''m2'' 1000]"
  by (simp add: sort_desc_def stored5_def timestamp_of_reading_at)

lemma matches_everything: "matches \<lparr>f_deviceId = None, f_gte = None, f_lte = None\<rparr> d"
  by (simp add: matches_def)

lemma build_query_limit_params:
  "build_query example_env (limit_params s) = Inr \<lparr>f_deviceId = None, f_gte = None, f_lte = None\<rparr>"
  by (simp add: build_query_def date_bound_def truthy_str_def limit_params_def no_params_def)

lemma limit_of_limit_params: "limit_of e (limit_params s) = parseInt e s"
  by (simp add: limit_of_def limit_params_def)

lemma storeFault_example_env: "storeFault example_env = None"
  by (simp add: example_env_def)

lemma parseInt_2: "parseInt example_env ''2'' = Whole 2"
  by (simp add: example_env_def)

lemma parseInt_0: "parseInt example_env ''0'' = Whole 0"
  by (simp add: example_env_def)

lemma get_readings_limit_2:
  "get_readings example_env stored5 (limit_params ''2'') =
     \<lparr>r_status = 200,
      r_json = Listing (listing_of [reading_at 3 ''m1'' 5000, reading_at 5 ''m1'' 4000])\<rparr>"
  by (simp add: get_readings_def get_readings_try_def build_query_limit_params
      matches_everything sort_desc_stored5 limit_of_limit_params storeFault_example_env
      parseInt_2 apply_limit_def listing_of_def)

text \<open>
  C4, as stated, at \<open>limit=0\<close> with one stored record: the limit is coerced to 0 and
  the route returns the record, one more than the limit.
\<close>

theorem limit_zero_counterexample:
  "limit_of example_env (limit_params ''0'') = Whole 0 \<and>
   get_readings example_env [reading_at 1 ''m1'' 3000] (limit_params ''0'') =
     \<lparr>r_status = 200, r_json = Listing (listing_of [reading_at 1 ''m1'' 3000])\<rparr> \<and>
   l_count (listing_of [reading_at 1 ''m1'' 3000]) = 1"
  by (simp add: get_readings_def get_readings_try_def build_query_limit_params
      matches_everything sort_desc_def limit_of_limit_params storeFault_example_env
      parseInt_0 apply_limit_def listing_of_def)

text \<open>
  C4, amended. A successful listing is a 200 response that holds matched records in
  order of non-increasing timestamp, with \<open>count\<close> their number, and every matched
  record left out is no more recent than every record returned. With the \<open>limit\<close>
  parameter coerced to an integer by \<open>parseInt\<close> (50 when the parameter is absent):
  when that integer is positive the listing holds that many records, all the matched
  ones when there are fewer; when it is zero no matched record is left out.
\<close>

theorem get_readings_sorted_capped:
  assumes "r_json (get_readings e coll q) = Listing l"
  shows "\<exists>query rest.
           build_query e q = Inr query \<and>
           r_status (get_readings e coll q) = 200 \<and>
           sorted_wrt (\<lambda>x y. timestamp_of y \<le> timestamp_of x) (l_data l) \<and>
           l_count l = length (l_data l) \<and>
           mset (l_data l) + mset rest = mset (filter (matches query) coll) \<and>
           (\<forall>x\<in>set (l_data l). \<forall>y\<in>set rest. timestamp_of y \<le> timestamp_of x) \<and>
           (limit_of e q = Whole 0 \<longrightarrow> rest = []) \<and>
           (\<forall>n. limit_of e q = Whole n \<and> 0 < n \<longrightarrow>
              length (l_data l) = min (nat n) (length (filter (matches query) coll))) \<and>
           (q_limit q = None \<longrightarrow> limit_of e q = Whole 50)"
proof -
  from get_readings_Listing [OF assms] obtain query where
    q: "build_query e q = Inr query"
    and l: "apply_limit e (limit_of e q) (sort_desc (filter (matches query) coll))
              = Inr (l_data l)"
    and c: "l_count l = length (l_data l)"
    and st: "r_status (get_readings e coll q) = 200"
    by blast
  let ?m = "filter (matches query) coll"
  let ?s = "sort_desc ?m"
  have s: "sorted_wrt (\<lambda>x y. timestamp_of y \<le> timestamp_of x) ?s"
    by (rule sorted_sort_desc)
  have len: "length ?s = length ?m"
    by (metis mset_sort_desc size_mset)
  from apply_limit_prefix [OF l] obtain k where
    k: "l_data l = take k ?s"
    and k0: "limit_of e q = Whole 0 \<longrightarrow> length ?s \<le> k"
    and kn: "\<forall>n. limit_of e q = Whole n \<and> 0 < n \<longrightarrow> k = nat n"
    by blast
  have sl: "sorted_wrt (\<lambda>x y. timestamp_of y \<le> timestamp_of x) (l_data l)"
    unfolding k using s by simp
  have "mset (take k ?s) + mset (drop k ?s) = mset ?s"
    by (metis append_take_drop_id mset_append)
  then have r1: "mset (l_data l) + mset (drop k ?s) = mset ?m"
    unfolding k mset_sort_desc .
  have r2: "\<forall>x\<in>set (l_data l). \<forall>y\<in>set (drop k ?s). timestamp_of y \<le> timestamp_of x"
    unfolding k using sorted_wrt_take_drop [OF s] by blast
  have r3: "limit_of e q = Whole 0 \<longrightarrow> drop k ?s = []"
    using k0 by simp
  have r4: "\<forall>n. limit_of e q = Whole n \<and> 0 < n \<longrightarrow>
              length (l_data l) = min (nat n) (length ?m)"
    using kn unfolding k by (auto simp: len)
  have d: "q_limit q = None \<longrightarrow> limit_of e q = Whole 50"
    by (simp add: limit_of_def)
  from q st sl c r1 r2 r3 r4 d
  have "build_query e q = Inr query \<and>
        r_status (get_readings e coll q) = 200 \<and>
        sorted_wrt (\<lambda>x y. timestamp_of y \<le> timestamp_of x) (l_data l) \<and>
        l_count l = length (l_data l) \<and>
        mset (l_data l) + mset (drop k ?s) = mset ?m \<and>
        (\<forall>x\<in>set (l_data l). \<forall>y\<in>set (drop k ?s). timestamp_of y \<le> timestamp_of x) \<and>
        (limit_of e q = Whole 0 \<longrightarrow> drop k ?s = []) \<and>
        (\<forall>n. limit_of e q = Whole n \<and> 0 < n \<longrightarrow>
           length (l_data l) = min (nat n) (length ?m)) \<and>
        (q_limit q = None \<longrightarrow> limit_of e q = Whole 50)"
    by (intro conjI)
  then show ?thesis by - (rule exI)+
qed

theorem get_readings_sorted_capped_witness:
  "length stored5 = 5 \<and>
   get_readings example_env stored5 (limit_params ''2'') =
     \<lparr>r_status = 200,
      r_json = Listing (listing_of [reading_at 3 ''m1'' 5000, reading_at 5 ''m1'' 4000])\<rparr> \<and>
   limit_of example_env (limit_params ''2'') = Whole 2 \<and>
   sorted_wrt (\<lambda>x y. timestamp_of y \<le> timestamp_of x)
     (l_data (listing_of [reading_at 3 ''m1'' 5000, reading_at 5 ''m1'' 4000])) \<and>
   length (l_data (listing_of [reading_at 3 ''m1'' 5000, reading_at 5 ''m1'' 4000])) = 2 \<and>
   l_count (listing_of [reading_at 3 ''m1'' 5000, reading_at 5 ''m1'' 4000]) = 2"
proof -
  let ?l = "listing_of [reading_at 3 ''m1'' 5000, reading_at 5 ''m1'' 4000]"
  have j: "r_json (get_readings example_env stored5 (limit_params ''2'')) = Listing ?l"
    by (simp add: get_readings_limit_2)
  have n2: "limit_of example_env (limit_params ''2'') = Whole 2"
    by (simp add: limit_of_limit_params parseInt_2)
  from get_readings_sorted_capped [OF j] obtain query where
    q: "build_query example_env (limit_params ''2'') = Inr query"
    and s: "sorted_wrt (\<lambda>x y. timestamp_of y \<le> timestamp_of x) (l_data ?l)"
    and c: "l_count ?l = length (l_data ?l)"
    and k: "\<forall>n. limit_of example_env (limit_params ''2'') = Whole n \<and> 0 < n \<longrightarrow>
              length (l_data ?l) = min (nat n) (length (filter (matches query) stored5))"
    by blast
  from q have "query = \<lparr>f_deviceId = None, f_gte = None, f_lte = None\<rparr>"
    by (simp add: build_query_limit_params)
  then have m: "filter (matches query) stored5 = stored5"
    by (simp add: matches_everything)
  have five: "length stored5 = 5"
    by (simp add: stored5_def)
  from k n2 m five have "length (l_data ?l) = 2" by simp
  with s c n2 five get_readings_limit_2 show ?thesis by simp
qed

lemma get_readings_device_m1:
  "r_json (get_readings example_env stored5 (device_params ''m1'')) =
     Listing (listing_of [reading_at 3 ''m1'' 5000, reading_at 5 ''m1'' 4000,
                          reading_at 1 ''m1'' 3000])"
proof -
  have q: "build_query example_env (device_params ''m1'') =
             Inr \<lparr>f_deviceId = Some ''m1'', f_gte = None, f_lte = None\<rparr>"
    by (simp add: build_query_def date_bound_def truthy_str_def device_params_def no_params_def)
  have f: "filter (matches \<lparr>f_deviceId = Some ''m1'', f_gte = None, f_lte = None\<rparr>) stored5 =
             [reading_at 1 ''m1'' 3000, reading_at 3 ''m1'' 5000, reading_at 5 ''m1'' 4000]"
    by (simp add: matches_def stored5_def deviceId_reading_at)
  have s: "sort_desc (filter (matches \<lparr>f_deviceId = Some ''m1'', f_gte = None, f_lte = None\<rparr>) stored5)
             = [reading_at 3 ''m1'' 5000, reading_at 5 ''m1'' 4000, reading_at 1 ''m1'' 3000]"
    unfolding f by (simp add: sort_desc_def timestamp_of_reading_at)
  have n: "limit_of example_env (device_params ''m1'') = Whole 50"
    by (simp add: limit_of_def device_params_def no_params_def)
  show ?thesis
    by (simp add: get_readings_def get_readings_try_def q s n storeFault_example_env
        apply_limit_def listing_of_def)
qed

text \<open>
  C5. A successful listing for a non-empty \<open>deviceId\<close> parameter X holds only records of
  the collection whose \<open>deviceId\<close> is X.
\<close>

theorem get_readings_by_device:
  assumes "r_json (get_readings e coll q) = Listing l" "q_deviceId q = Some X" "X \<noteq> []"
  shows "\<forall>d\<in>set (l_data l). d \<in> set coll \<and> get_path d ''deviceId'' = Some (DStr X)"
proof
  fix d assume "d \<in> set (l_data l)"
  from in_listing [OF assms(1) this] obtain query where
    q: "build_query e q = Inr query" and d: "d \<in> set coll" "matches query d"
    by blast
  from build_query_Inr [OF q] assms(2,3) have "f_deviceId query = Some X"
    by (simp add: truthy_str_def)
  with d show "d \<in> set coll \<and> get_path d ''deviceId'' = Some (DStr X)"
    by (simp add: matches_def)
qed

theorem get_readings_by_device_witness:
  "r_json (get_readings example_env stored5 (device_params ''m1'')) =
     Listing (listing_of [reading_at 3 ''m1'' 5000, reading_at 5 ''m1'' 4000,
                          reading_at 1 ''m1'' 3000]) \<and>
   q_deviceId (device_params ''m1'') = Some ''m1'' \<and> ''m1'' \<noteq> [] \<and>
   reading_at 5 ''m1'' 4000 \<in> set stored5 \<and>
   get_path (reading_at 5 ''m1'' 4000) ''deviceId'' = Some (DStr ''m1'')"
proof -
  have p: "q_deviceId (device_params ''m1'') = Some ''m1''"
    by (simp add: device_params_def)
  have ne: "''m1'' \<noteq> []" by simp
  have "reading_at 5 ''m1'' 4000 \<in> set (l_data (listing_of
          [reading_at 3 ''m1'' 5000, reading_at 5 ''m1'' 4000, reading_at 1 ''m1'' 3000]))"
    by (simp add: listing_of_def)
  with get_readings_by_device [OF get_readings_device_m1 p ne]
  have "reading_at 5 ''m1'' 4000 \<in> set stored5 \<and>
        get_path (reading_at 5 ''m1'' 4000) ''deviceId'' = Some (DStr ''m1'')"
    by blast
  with get_readings_device_m1 p ne show ?thesis by simp
qed

lemma matches_range:
  "matches \<lparr>f_deviceId = dv, f_gte = Some a, f_lte = Some b\<rparr> d =
     ((\<exists>t. timestamp_of d = Some t \<and> a \<le> t \<and> t \<le> b) \<and>
      (dv = None \<or> (\<exists>x. dv = Some x \<and> get_path d ''deviceId'' = Some (DStr x))))"
  by (cases dv; cases "timestamp_of d") (auto simp: matches_def)

lemma get_readings_range:
  "r_json (get_readings example_env stored5
      (range_params ''1970-01-01T00:00:02Z'' ''1970-01-01T00:00:04Z'')) =
     Listing (listing_of [reading_at 5 ''m1'' 4000, reading_at 1 ''m1'' 3000,
                          reading_at 4 ''m2'' 2000])"
proof -
  have q: "build_query example_env (range_params ''1970-01-01T00:00:02Z'' ''1970-01-01T00:00:04Z'') =
             Inr \<lparr>f_deviceId = None, f_gte = Some 2000, f_lte = Some 4000\<rparr>"
    by (simp add: build_query_def date_bound_def truthy_str_def range_params_def no_params_def
        example_env_def)
  have f: "filter (matches \<lparr>f_deviceId = None, f_gte = Some 2000, f_lte = Some 4000\<rparr>) stored5 =
             [reading_at 1 ''m1'' 3000, reading_at 4 ''m2'' 2000, reading_at 5 ''m1'' 4000]"
    by (simp add: matches_range stored5_def timestamp_of_reading_at)
  have s: "sort_desc (filter (matches \<lparr>f_deviceId = None, f_gte = Some 2000, f_lte = Some 4000\<rparr>) stored5)
             = [reading_at 5 ''m1'' 4000, reading_at 1 ''m1'' 3000, reading_at 4 ''m2'' 2000]"
    unfolding f by (simp add: sort_desc_def timestamp_of_reading_at)
  have n: "limit_of example_env (range_params ''1970-01-01T00:00:02Z'' ''1970-01-01T00:00:04Z'')
             = Whole 50"
    by (simp add: limit_of_def range_params_def no_params_def)
  show ?thesis
    by (simp add: get_readings_def get_readings_try_def q s n storeFault_example_env
        apply_limit_def listing_of_def)
qed

text \<open>
  C6. A successful listing for the parameters \<open>startDate=A\<close> and \<open>endDate=B\<close>, two
  strings that denote the dates a and b, holds only records of the collection whose
  timestamp t satisfies a \<le> t \<le> b. \<open>getReadingsInRange\<close> returns exactly the
  readings of the collection with a timestamp in [start, end], those of the given
  device only when a device is given, in order of non-increasing timestamp.
\<close>

theorem readings_in_range:
  "(r_json (get_readings e coll q) = Listing l \<and> q_startDate q = Some A \<and> q_endDate q = Some B \<and>
    A \<noteq> [] \<and> B \<noteq> [] \<and> parseDate e A = Some a \<and> parseDate e B = Some b \<longrightarrow>
      (\<forall>d\<in>set (l_data l).
         d \<in> set coll \<and> (\<exists>t. timestamp_of d = Some t \<and> a \<le> t \<and> t \<le> b)))
   \<and> mset (getReadingsInRange start end dev coll) =
       mset (filter (\<lambda>d. (\<exists>t. timestamp_of d = Some t \<and> start \<le> t \<and> t \<le> end) \<and>
                         (dev = None \<or> dev = Some [] \<or>
                          (\<exists>x. dev = Some x \<and> get_path d ''deviceId'' = Some (DStr x)))) coll)
   \<and> sorted_wrt (\<lambda>x y. timestamp_of y \<le> timestamp_of x) (getReadingsInRange start end dev coll)"
proof (intro conjI impI ballI)
  fix d
  assume h: "r_json (get_readings e coll q) = Listing l \<and> q_startDate q = Some A \<and> q_endDate q = Some B \<and>
    A \<noteq> [] \<and> B \<noteq> [] \<and> parseDate e A = Some a \<and> parseDate e B = Some b"
    and d: "d \<in> set (l_data l)"
  from h have g: "r_json (get_readings e coll q) = Listing l" by simp
  from in_listing [OF g d] obtain query where
    q: "build_query e q = Inr query" and m: "d \<in> set coll" "matches query d"
    by blast
  from build_query_Inr [OF q] h have "f_gte query = Some a" "f_lte query = Some b"
    by (simp_all add: date_bound_def truthy_str_def)
  with m(2) have "\<exists>t. timestamp_of d = Some t \<and> a \<le> t \<and> t \<le> b"
    by (cases "timestamp_of d") (auto simp: matches_def)
  with m(1) show "d \<in> set coll" and "\<exists>t. timestamp_of d = Some t \<and> a \<le> t \<and> t \<le> b"
    by simp_all
next
  show "mset (getReadingsInRange start end dev coll) =
       mset (filter (\<lambda>d. (\<exists>t. timestamp_of d = Some t \<and> start \<le> t \<and> t \<le> end) \<and>
                         (dev = None \<or> dev = Some [] \<or>
                          (\<exists>x. dev = Some x \<and> get_path d ''deviceId'' = Some (DStr x)))) coll)"
  proof (cases "truthy_str dev")
    case True
    then have "dev \<noteq> None" "dev \<noteq> Some []"
      by (auto simp: truthy_str_def split: option.splits)
    with True show ?thesis
      by (simp add: getReadingsInRange_def mset_sort_desc matches_range)
  next
    case False
    then have "dev = None \<or> dev = Some []"
      by (auto simp: truthy_str_def split: option.splits)
    with False show ?thesis
      by (auto simp: getReadingsInRange_def mset_sort_desc matches_range)
  qed
next
  show "sorted_wrt (\<lambda>x y. timestamp_of y \<le> timestamp_of x) (getReadingsInRange start end dev coll)"
    by (simp add: getReadingsInRange_def Let_def sorted_sort_desc)
qed

theorem readings_in_range_witness:
  "r_json (get_readings example_env stored5
      (range_params ''1970-01-01T00:00:02Z'' ''1970-01-01T00:00:04Z'')) =
     Listing (listing_of [reading_at 5 ''m1'' 4000, reading_at 1 ''m1'' 3000,
                          reading_at 4 ''m2'' 2000]) \<and>
   parseDate example_env ''1970-01-01T00:00:02Z'' = Some 2000 \<and>
   parseDate example_env ''1970-01-01T00:00:04Z'' = Some 4000 \<and>
   reading_at 4 ''m2'' 2000 \<in> set stored5 \<and>
   (\<exists>t. timestamp_of (reading_at 4 ''m2'' 2000) = Some t \<and> 2000 \<le> t \<and> t \<le> 4000)"
proof -
  have p: "q_startDate (range_params ''1970-01-01T00:00:02Z'' ''1970-01-01T00:00:04Z'')
             = Some ''1970-01-01T00:00:02Z''"
          "q_endDate (range_params ''1970-01-01T00:00:02Z'' ''1970-01-01T00:00:04Z'')
             = Some ''1970-01-01T00:00:04Z''"
    by (simp_all add: range_params_def)
  have ne: "''1970-01-01T00:00:02Z'' \<noteq> []" "''1970-01-01T00:00:04Z'' \<noteq> []"
    by simp_all
  have d: "parseDate example_env ''1970-01-01T00:00:02Z'' = Some 2000"
          "parseDate example_env ''1970-01-01T00:00:04Z'' = Some 4000"
    by (simp_all add: example_env_def)
  have i: "reading_at 4 ''m2'' 2000 \<in> set (l_data (listing_of
             [reading_at 5 ''m1'' 4000, reading_at 1 ''m1'' 3000, reading_at 4 ''m2'' 2000]))"
    by (simp add: listing_of_def)
  from readings_in_range [of example_env stored5
          "range_params ''1970-01-01T00:00:02Z'' ''1970-01-01T00:00:04Z''"
          "listing_of [reading_at 5 ''m1'' 4000, reading_at 1 ''m1'' 3000,
                       reading_at 4 ''m2'' 2000]"
          "''1970-01-01T00:00:02Z''" "''1970-01-01T00:00:04Z''" 2000 4000]
       get_readings_range p ne d i
  have "reading_at 4 ''m2'' 2000 \<in> set stored5 \<and>
        (\<exists>t. timestamp_of (reading_at 4 ''m2'' 2000) = Some t \<and> 2000 \<le> t \<and> t \<le> 4000)"
    by blast
  with get_readings_range d show ?thesis by simp
qed

end
